theory Spec2Isabelle
  imports Main "HOL-Library.Sublist" "HOL-Library.Char_ord" "HOL-Library.List_Lexorder"
begin

section \<open>dep-verify: the verification engine of \<open>lib/index.js\<close>\<close>

text \<open>
  The module compares, for every dependency of a lockfile, the tarball served by the npm
  registry with the source archive of the matching GitHub tag. Its only export is the
  asynchronous function \<open>verify\<close>; everything it reports goes to the \<open>pino\<close> logger.

  The embedding keeps the functions of the module under their own names. Strings are
  \<^typ>\<open>string\<close>; a value that may be \<open>undefined\<close> is an \<^typ>\<open>'a option\<close>; a thrown value
  or a rejected promise is the left summand of a sum; the calls on the logger and the
  requests sent to the network are collected, in program order, in a list of events.
\<close>

subsection \<open>JavaScript strings\<close>

text \<open>
  A template literal prints \<open>undefined\<close> for a missing value, and \<open>!v\<close> holds for
  \<open>undefined\<close> and for the empty string.
\<close>

definition template :: "string option \<Rightarrow> string" where
  "template v = (case v of None \<Rightarrow> ''undefined'' | Some s \<Rightarrow> s)"

definition falsy :: "string option \<Rightarrow> bool" where
  "falsy v = (case v of None \<Rightarrow> True | Some s \<Rightarrow> s = [])"

text \<open>\<open>s.includes(sub)\<close>: \<open>sub\<close> occurs in \<open>s\<close> as a contiguous block.\<close>

fun js_includes :: "string \<Rightarrow> string \<Rightarrow> bool" where
  "js_includes [] sub = (sub = [])"
| "js_includes (c # cs) sub = (prefix sub (c # cs) \<or> js_includes cs sub)"

text \<open>
  \<open>s.replace(pat, repl)\<close> with a string pattern replaces the first occurrence of
  \<open>pat\<close> only. The one call of the module passes the replacement \<open>''\<close>, so the
  \<open>$\<close>-patterns of a replacement string play no part.
\<close>

fun js_replace :: "string \<Rightarrow> string \<Rightarrow> string \<Rightarrow> string" where
  "js_replace [] pat repl = (if pat = [] then repl else [])"
| "js_replace (c # cs) pat repl =
     (if prefix pat (c # cs) then repl @ drop (length pat) (c # cs)
      else c # js_replace cs pat repl)"

text \<open>\<open>s.split('/')\<close>: the pieces between the slashes; never the empty list.\<close>

fun split_slash :: "string \<Rightarrow> string list" where
  "split_slash [] = [[]]"
| "split_slash (c # cs) =
     (if c = CHR ''/'' then [] # split_slash cs
      else (case split_slash cs of
              [] \<Rightarrow> [[c]]
            | p # ps \<Rightarrow> (c # p) # ps))"

text \<open>Array destructuring reads a missing position as \<open>undefined\<close>.\<close>

definition at_index :: "'a list \<Rightarrow> nat \<Rightarrow> 'a option" where
  "at_index xs i = (if i < length xs then Some (xs ! i) else None)"

text \<open>\<open>String(n)\<close> for a non-negative integer: its decimal digits.\<close>

definition digit :: "nat \<Rightarrow> char" where
  "digit d = ''0123456789'' ! d"

fun show_nat :: "nat \<Rightarrow> string" where
  "show_nat n =
     (if n < 10 then [digit n]
      else show_nat (n div 10) @ [digit (n mod 10)])"

declare show_nat.simps [simp del]

subsection \<open>Paths (\<open>path\<close> of Node.js, POSIX flavour)\<close>

text \<open>
  \<open>last_portion\<close> is what \<open>path.basename(p)\<close> returns: trailing slashes are dropped and
  the text after the last remaining slash is kept.
\<close>

definition last_portion :: "string \<Rightarrow> string" where
  "last_portion p =
     rev (takeWhile (\<lambda>c. c \<noteq> CHR ''/'') (dropWhile (\<lambda>c. c = CHR ''/'') (rev p)))"

text \<open>
  \<open>path.extname(p)\<close>: from the last dot of the last portion to its end; empty when
  there is no dot, when the only dot is the first character, and for \<open>..\<close>.
\<close>

definition extname :: "string \<Rightarrow> string" where
  "extname p =
     (let b = last_portion p;
          e = rev (takeWhile (\<lambda>c. c \<noteq> CHR ''.'') (rev b))
      in if CHR ''.'' \<notin> set b \<or> b = ''..'' \<or> length e + 1 = length b then []
         else CHR ''.'' # e)"

text \<open>\<open>path.basename(p, ext)\<close>: the last portion without a trailing \<open>ext\<close>.\<close>

definition basename :: "string \<Rightarrow> string \<Rightarrow> string" where
  "basename p ext =
     (let b = last_portion p
      in if ext \<noteq> [] \<and> ext \<noteq> b \<and> suffix ext b
         then take (length b - length ext) b else b)"

text \<open>
  \<open>path.resolve(dir, name)\<close>. The scratch directory is taken to be an absolute path in
  normal form and \<open>name\<close> a relative path without \<open>.\<close> and \<open>..\<close> parts, which is how
  the module calls it; then the result is the plain concatenation.
\<close>

definition path_resolve :: "string \<Rightarrow> string \<Rightarrow> string" where
  "path_resolve dir name = dir @ ''/'' @ name"

subsection \<open>Thrown values, events, asynchronous results\<close>

text \<open>
  The module throws \<open>Error\<close> objects (also the rejections of \<open>request\<close>,
  \<open>request-promise\<close>, \<open>targz\<close>, \<open>find\<close> and \<open>sha1-file\<close> are such objects), the
  runtime throws \<open>TypeError\<close>, and \<open>Promise.any\<close> rejects with the array of the
  rejections it collected. \<open>message\<close> is the \<open>.message\<close> property: an array has none.
  The messages of the runtime's \<open>TypeError\<close>s are worded as by the Node.js releases the
  module was written for.
\<close>

datatype js_error = Error string | TypeError string

datatype thrown = Obj js_error | Arr "thrown list"

fun message :: "thrown \<Rightarrow> string option" where
  "message (Obj (Error m)) = Some m"
| "message (Obj (TypeError m)) = Some m"
| "message (Arr es) = None"

text \<open>
  An event is a call on the logger (its level, its message and its further arguments) or
  a request handed to one of the three HTTP entry points the module uses:
  \<open>rp(...)\<close> of request-promise, \<open>request(...)\<close> and \<open>request.get(url)\<close> piped into a
  file. The level given to \<open>pino\<close> only decides which calls the sink prints; the events
  are the calls themselves.
\<close>

datatype level = Debug | Info | Warn | Err

datatype event =
    Log level string "string option list"
  | Rp string
  | Request string
  | RequestGet string string

text \<open>
  The result of an asynchronous function: the events it caused, and the value of its
  promise, rejected (\<open>Inl\<close>) or fulfilled (\<open>Inr\<close>). \<open>await\<close> runs the continuation on a
  fulfilled promise and passes a rejection on, as \<open>await\<close> does inside an
  \<open>async\<close> function.
\<close>

type_synonym 'a io = "event list \<times> (thrown + 'a)"

definition return :: "'a \<Rightarrow> 'a io" where
  "return a = ([], Inr a)"

definition throw :: "thrown \<Rightarrow> 'a io" where
  "throw e = ([], Inl e)"

definition logger :: "level \<Rightarrow> string \<Rightarrow> string option list \<Rightarrow> unit io" where
  "logger l msg args = ([Log l msg args], Inr ())"

definition await :: "'a io \<Rightarrow> ('a \<Rightarrow> 'b io) \<Rightarrow> 'b io" where
  "await m f =
     (case m of
        (es, Inl e) \<Rightarrow> (es, Inl e)
      | (es, Inr a) \<Rightarrow> (case f a of (es', r) \<Rightarrow> (es @ es', r)))"

definition try_catch :: "'a io \<Rightarrow> (thrown \<Rightarrow> 'a io) \<Rightarrow> 'a io" where
  "try_catch m h =
     (case m of
        (es, Inl e) \<Rightarrow> (case h e of (es', r) \<Rightarrow> (es @ es', r))
      | (es, Inr a) \<Rightarrow> (es, Inr a))"

subsection \<open>What lies outside the module\<close>

text \<open>
  The registry document of a package, as far as the module reads it:
  \<open>repository.url\<close> (\<open>None\<close> when \<open>repository\<close> or its \<open>url\<close> is missing) and
  \<open>dist-tags\<close> (\<open>None\<close> when missing) with its \<open>latest\<close> entry.
\<close>

record package_info =
  repository_url :: "string option"
  dist_tags :: "string option option"

text \<open>
  \<open>request.get(url)\<close> either emits \<open>error\<close> (no connection) or a response with a
  status code, followed by \<open>end\<close>.
\<close>

datatype http_outcome = Failed string | Status nat

text \<open>
  What \<open>await request(options)\<close> evaluates to. The \<open>request\<close> package returns its
  \<open>Request\<close> stream, which is no promise (the promise interface is request-promise,
  \<open>rp\<close> in the module), so \<open>await\<close> hands back the stream itself: \<open>RequestStream\<close>. The
  second constructor is what a client returning a promise of the parsed body would give.
\<close>

datatype awaited = RequestStream | Body package_info

text \<open>
  A node of the scratch directory: a directory, a file with the SHA-1 digest of its
  content, or a file that cannot be read.
\<close>

datatype node = Directory | File string | Unreadable

text \<open>
  The world answers every call that leaves the module, as a function of the call's
  arguments:
  \<^item> \<open>rp_get\<close>: the promise of \<open>rp({uri, json: true})\<close>;
  \<open>request_call\<close>: the value of \<open>await request({url, json: true, method: 'GET'})\<close>;
  \<open>request_get\<close>: the outcome of \<open>request.get(url)\<close>;
  \<^item> \<open>settled\<close>: for the two downloads \<open>Promise.any\<close> races for a package, the order
  (by position) in which their promises settle;
  \<^item> \<open>url_pathname\<close>: \<open>url.parse(u).pathname\<close>, \<open>None\<close> for \<open>null\<close>;
  \<^item> \<open>targz_decompress\<close>: the error of \<open>targz.decompress({src, dest})\<close>, if any;
  \<^item> \<open>files\<close>: the scratch directory once the archives are unpacked, paths in normal
  form with \<open>/\<close> as separator.
\<close>

record world =
  rp_get :: "string \<Rightarrow> js_error + package_info"
  request_call :: "string \<Rightarrow> awaited"
  request_get :: "string \<Rightarrow> http_outcome"
  settled :: "string \<Rightarrow> nat list"
  url_pathname :: "string \<Rightarrow> string option"
  targz_decompress :: "string \<Rightarrow> string \<Rightarrow> js_error option"
  files :: "(string \<times> node) list"

text \<open>
  The module's own state: \<open>let REGISTRY_BASE_URL = 'https://registry.npmjs.org'\<close> and
  \<open>let TEMP_DIR\<close>. \<open>TEMP_DIR\<close> is assigned from the argument \<open>tempDirectory\<close> of
  \<open>verify\<close> before it is read; the argument is taken to be a string.
\<close>

record module_state =
  REGISTRY_BASE_URL :: string
  TEMP_DIR :: string

definition initial_state :: module_state where
  "initial_state = \<lparr>REGISTRY_BASE_URL = ''https://registry.npmjs.org'', TEMP_DIR = []\<rparr>"

subsection \<open>The functions of the module\<close>

definition getPackageInfoFromRegistry ::
  "world \<Rightarrow> module_state \<Rightarrow> string \<Rightarrow> package_info io" where
  "getPackageInfoFromRegistry w s dependency =
     (let uri = REGISTRY_BASE_URL s @ ''/'' @ dependency
      in ([Rp uri], case rp_get w uri of Inl e \<Rightarrow> Inl (Obj e) | Inr info \<Rightarrow> Inr info))"

definition getPackageLatestVersion ::
  "world \<Rightarrow> module_state \<Rightarrow> string \<Rightarrow> string option io" where
  \<open>getPackageLatestVersion w s name =
     (let url = REGISTRY_BASE_URL s @ ''/'' @ name
      in ([Request url],
          case request_call w url of
            RequestStream \<Rightarrow>
              Inl (Obj (TypeError ''Cannot read property 'latest' of undefined''))
          | Body response \<Rightarrow>
              (case dist_tags response of
                 None \<Rightarrow> Inl (Obj (TypeError ''Cannot read property 'latest' of undefined''))
               | Some latest \<Rightarrow> Inr latest)))\<close>

text \<open>
  \<open>downloadFile\<close>: the status counts as a success when the first character of its
  decimal form is \<open>2\<close>; otherwise the promise is rejected with \<open>new Error(statusCode)\<close>
  at \<open>end\<close>.
\<close>

definition downloadFile :: "world \<Rightarrow> module_state \<Rightarrow> string \<Rightarrow> string \<Rightarrow> string io" where
  "downloadFile w s url fileName =
     (let destinationPath = path_resolve (TEMP_DIR s) fileName;
          started = [Log Debug (''downloading file '' @ url) [], RequestGet url destinationPath]
      in case request_get w url of
           Failed m \<Rightarrow>
             (started @
                [Log Err (''there was an error downloading file '' @ url @ '': '' @ m) []],
              Inl (Obj (Error m)))
         | Status statusCode \<Rightarrow>
             if hd (show_nat statusCode) \<noteq> CHR ''2''
             then (started, Inl (Obj (Error (show_nat statusCode))))
             else (started @ [Log Debug (''finished downloading file '' @ url) []],
                   Inr destinationPath))"

definition downloadCompressedFileFromNpm ::
  "world \<Rightarrow> module_state \<Rightarrow> string \<Rightarrow> string option \<Rightarrow> (string \<times> string option) io" where
  "downloadCompressedFileFromNpm w s name version =
     await (if falsy version then getPackageLatestVersion w s name else return version)
       (\<lambda>version'.
          let url = REGISTRY_BASE_URL s @ ''/'' @ name @ ''/-/'' @ name @ ''-'' @
                    template version' @ ''.tgz''
          in await (downloadFile w s url (name @ ''-'' @ template version' @ ''-npm.tgz''))
               (\<lambda>path. return (path, version')))"

text \<open>
  \<open>find.file(regex, root, callback)\<close> of the \<open>find\<close> package: every file below \<open>root\<close>
  whose path matches, each path being \<open>root\<close>, a separator and the path inside \<open>root\<close>;
  its error handler is called when \<open>root\<close> is no directory. The regular expression
  \<open>/\.js$/\<close> is the test \<open>suffix ''.js''\<close>.
\<close>

definition findFiles :: "world \<Rightarrow> (string \<Rightarrow> bool) \<Rightarrow> string \<Rightarrow> string list io" where
  "findFiles w regex root =
     (case map_of (files w) root of
        Some Directory \<Rightarrow>
          return (map fst (filter (\<lambda>(p, n). n \<noteq> Directory \<and> prefix (root @ ''/'') p \<and> regex p)
                             (files w)))
      | _ \<Rightarrow> throw (Obj (Error (root @ '' does not exist.''))))"

text \<open>
  \<open>result[k] = v\<close> on an object whose keys are no array indices: an own key keeps its
  place, a new key goes last (the order \<open>Object.entries\<close> follows).
\<close>

fun assign :: "('k \<times> 'v) list \<Rightarrow> 'k \<Rightarrow> 'v \<Rightarrow> ('k \<times> 'v) list" where
  "assign [] k v = [(k, v)]"
| "assign ((k', v') # kvs) k v =
     (if k' = k then (k, v) # kvs else (k', v') # assign kvs k v)"

definition getFileMap :: "world \<Rightarrow> string \<Rightarrow> (string \<times> bool) list io" where
  "getFileMap w path =
     await (findFiles w (suffix ''.js'') path)
       (\<lambda>found. return (foldl (\<lambda>result file. assign result (js_replace file path []) True)
                           [] found))"

text \<open>
  \<open>sha1File(file)\<close>: the digest of a file that can be read, the error of the read stream
  otherwise.
\<close>

definition getHash :: "world \<Rightarrow> string \<Rightarrow> string io" where
  "getHash w file =
     (case map_of (files w) file of
        Some (File digest) \<Rightarrow> return digest
      | Some Directory \<Rightarrow> throw (Obj (Error ''EISDIR: illegal operation on a directory, read''))
      | Some Unreadable \<Rightarrow>
          throw (Obj (Error (''EACCES: permission denied, open '' @ [CHR 0x27] @ file @
                             [CHR 0x27])))
      | None \<Rightarrow>
          throw (Obj (Error (''ENOENT: no such file or directory, open '' @ [CHR 0x27] @ file @
                             [CHR 0x27]))))"

text \<open>\<open>fs.access(filePath, fs.F_OK)\<close>: the path exists, as a file or as a directory.\<close>

definition fileExists :: "world \<Rightarrow> string \<Rightarrow> bool" where
  "fileExists w filePath = (map_of (files w) filePath \<noteq> None)"

definition decompress :: "world \<Rightarrow> string \<Rightarrow> string \<Rightarrow> unit io" where
  "decompress w src dest =
     (case targz_decompress w src dest of
        Some e \<Rightarrow> throw (Obj e)
      | None \<Rightarrow> return ())"

text \<open>
  \<open>Promise.any\<close> of the \<open>promise-any\<close> package. All promises are started, in the order
  of the array; the result is the value of the first that fulfils, in the order
  \<open>order\<close> in which they settle (positions the order leaves out settle last); when
  none fulfils, the rejection is the array of all rejections, in the order of the array.
  The events of each promise are kept together, in the order of the array: how the calls
  of downloads that run side by side interleave is left out.
\<close>

fun first_fulfilled :: "(thrown + 'a) list \<Rightarrow> nat list \<Rightarrow> 'a option" where
  "first_fulfilled rs [] = None"
| "first_fulfilled rs (i # js) =
     (case at_index rs i of
        Some (Inr a) \<Rightarrow> Some a
      | _ \<Rightarrow> first_fulfilled rs js)"

definition rejections :: "(thrown + 'a) list \<Rightarrow> thrown list" where
  "rejections rs = concat (map (\<lambda>r. case r of Inl e \<Rightarrow> [e] | Inr a \<Rightarrow> []) rs)"

definition promise_any :: "nat list \<Rightarrow> 'a io list \<Rightarrow> 'a io" where
  "promise_any order ps =
     (let rs = map snd ps
      in (concat (map fst ps),
          case first_fulfilled rs (order @ [0..<length rs]) of
            Some a \<Rightarrow> Inr a
          | None \<Rightarrow> Inl (Arr (rejections rs))))"

record gh_response =
  path :: string
  repo :: string
  user :: string

text \<open>
  \<open>downloadCompressedFileFromGitHub\<close>, lines 191 to 195: the user and the repository
  are the second and third piece of the path of \<open>repository.url\<close>, the repository
  without its extension (\<open>.git\<close>). \<open>path.extname\<close> throws on \<open>undefined\<close>, the third
  piece of a path with fewer pieces.
\<close>

definition github_repository :: "world \<Rightarrow> package_info \<Rightarrow> (string \<times> string) io" where
  \<open>github_repository w packageInfo =
     (if falsy (repository_url packageInfo)
      then throw (Obj (Error ''package info doesn't contains repository info''))
      else
        case url_pathname w (template (repository_url packageInfo)) of
          None \<Rightarrow> throw (Obj (TypeError ''Cannot read property 'split' of null''))
        | Some pathname \<Rightarrow>
            (case split_slash pathname of
               x # githubUser # githubRepo # rest \<Rightarrow>
                 return (githubUser, basename githubRepo (extname githubRepo))
             | _ \<Rightarrow> throw (Obj (TypeError ''The "path" argument must be of type string''))))\<close>

text \<open>Lines 198 and 199: the archive of the tag \<open>v<version>\<close> and of the tag \<open><version>\<close>.\<close>

definition tarURL :: "string \<Rightarrow> string \<Rightarrow> string option \<Rightarrow> string" where
  "tarURL githubUser githubRepoName version =
     ''https://github.com/'' @ githubUser @ ''/'' @ githubRepoName @ ''/archive/v'' @
     template version @ ''.tar.gz''"

definition alternativeURL :: "string \<Rightarrow> string \<Rightarrow> string option \<Rightarrow> string" where
  "alternativeURL githubUser githubRepoName version =
     ''https://github.com/'' @ githubUser @ ''/'' @ githubRepoName @ ''/archive/'' @
     template version @ ''.tar.gz''"

text \<open>Lines 201 to 205: both candidates are downloaded, the first to fulfil gives the path.\<close>

definition downloadCompressedFileFromGitHub ::
  "world \<Rightarrow> module_state \<Rightarrow> string \<Rightarrow> string option \<Rightarrow> package_info \<Rightarrow> gh_response io" where
  "downloadCompressedFileFromGitHub w s name version packageInfo =
     await (github_repository w packageInfo)
       (\<lambda>(githubUser, githubRepoName).
          await
            (promise_any (settled w name)
               [downloadFile w s (tarURL githubUser githubRepoName version)
                  (name @ ''-'' @ template version @ ''-gh.tgz''),
                downloadFile w s (alternativeURL githubUser githubRepoName version)
                  (name @ ''-'' @ template version @ ''-gh.tar.gz'')])
            (\<lambda>p. return \<lparr>path = p, repo = githubRepoName, user = githubUser\<rparr>))"

subsection \<open>\<open>verify\<close>\<close>

text \<open>The template literals handed to the logger (lines 68, 73, 79, 82, 91, 93 and 96).\<close>

definition missing_message :: "string \<Rightarrow> string \<Rightarrow> string" where
  \<open>missing_message mapKey key =
     ''File '' @ [CHR 0x27] @ mapKey @ [CHR 0x27] @ '' for package '' @ key @
     '' doesn't exists in GitHub release. Could be a false positive...''\<close>

definition different_message :: "string \<Rightarrow> string \<Rightarrow> string option \<Rightarrow> string" where
  \<open>different_message key mapKey version =
     ''Found different hashes for package "'' @ key @ ''" on path "'' @ mapKey @
     ''" and version "'' @ template version @ ''"''\<close>

definition matched_message :: "string \<Rightarrow> string" where
  "matched_message key = ''All hashes matched for package '' @ key"

definition found_message :: "nat \<Rightarrow> string \<Rightarrow> string" where
  "found_message n key =
     ''Found '' @ show_nat n @ '' files with different hashes for package '' @ key @ ''.''"

definition tarball_message :: "string \<Rightarrow> string" where
  \<open>tarball_message key =
     ''Couldn't download a tarball for '' @ key @ '' package. Something might be wrong.''\<close>

definition process_message :: "string \<Rightarrow> string" where
  "process_message key = ''An error ocurred while trying to process '' @ key @ '' package.''"

text \<open>
  The loop over \<open>Object.entries(fileMapFromNPM)\<close> (lines 60 to 76): the registry-side
  file is hashed first, then the source-side path is probed; a missing path is logged
  with \<open>logger.warn\<close> and skipped, an existing one is hashed and its key pushed on
  \<open>differentFiles\<close> when the digests differ.
\<close>

fun compare_loop ::
  "world \<Rightarrow> string \<Rightarrow> string option \<Rightarrow> string \<Rightarrow> string \<Rightarrow> (string \<times> bool) list \<Rightarrow>
   string list \<Rightarrow> string list io" where
  \<open>compare_loop w key version npmRoot ghRoot [] differentFiles = return differentFiles\<close>
| \<open>compare_loop w key version npmRoot ghRoot ((mapKey, v) # entries) differentFiles =
     await (getHash w (npmRoot @ mapKey))
       (\<lambda>hashNpm.
          let ghFilePath = ghRoot @ mapKey
          in if \<not> fileExists w ghFilePath
             then await
                    (logger Warn (missing_message mapKey key) [])
                    (\<lambda>u. compare_loop w key version npmRoot ghRoot entries differentFiles)
             else await (getHash w ghFilePath)
                    (\<lambda>hashGH.
                       if hashNpm \<noteq> hashGH
                       then await
                              (logger Err (different_message key mapKey version) [])
                              (\<lambda>u. compare_loop w key version npmRoot ghRoot entries
                                      (differentFiles @ [mapKey]))
                       else compare_loop w key version npmRoot ghRoot entries differentFiles))\<close>

text \<open>
  The inner \<open>try\<close> (lines 58 to 87). Its value is what the iteration pushes on
  \<open>dependenciesWithDifferences\<close>: nothing, or the pair of the package and the number of
  its different files. An error of the loop is logged by the inner \<open>catch\<close>.
\<close>

definition compare_files ::
  "world \<Rightarrow> string \<Rightarrow> string option \<Rightarrow> string \<Rightarrow> string \<Rightarrow> (string \<times> bool) list \<Rightarrow>
   (string \<times> nat) option io" where
  "compare_files w key version npmRoot ghRoot fileMapFromNPM =
     try_catch
       (await (compare_loop w key version npmRoot ghRoot fileMapFromNPM [])
          (\<lambda>differentFiles.
             if length differentFiles = 0
             then await (logger Info (matched_message key) []) (\<lambda>u. return None)
             else await (logger Err (found_message (length differentFiles) key) [])
                    (\<lambda>u. return (Some (key, length differentFiles)))))
       (\<lambda>err.
          await
            (logger Err (''An error ocurred while verifying the '' @ key @ '' package'')
               [message err])
            (\<lambda>u. return None))"

text \<open>The body of the outer \<open>try\<close> (lines 37 to 87).\<close>

definition check_package ::
  "world \<Rightarrow> module_state \<Rightarrow> string \<Rightarrow> string option \<Rightarrow> package_info \<Rightarrow>
   (string \<times> nat) option io" where
  "check_package w s key version packageInfo =
     await (logger Info (''Starting checks for package '' @ key) [])
       (\<lambda>u. await (downloadCompressedFileFromGitHub w s key version packageInfo)
       (\<lambda>ghResponse. await (downloadCompressedFileFromNpm w s key version)
       (\<lambda>result.
          let ghDestinationPath = path ghResponse;
              npmDestinationPath = fst result;
              npmDecompressedDestination =
                path_resolve (TEMP_DIR s)
                  (basename npmDestinationPath (extname npmDestinationPath));
              githubDecompressedDestination =
                path_resolve (TEMP_DIR s)
                  (basename ghDestinationPath (extname ghDestinationPath));
              npmRoot = npmDecompressedDestination @ ''/package'';
              ghRoot = githubDecompressedDestination @ ''/'' @ repo ghResponse @ ''-'' @
                       template version
          in if ghDestinationPath = [] \<or> npmDestinationPath = [] then return None
             else
               await (logger Debug
                        (''decompressing package into '' @ npmDecompressedDestination) [])
               (\<lambda>u. await (decompress w npmDestinationPath npmDecompressedDestination)
               (\<lambda>u. await (decompress w ghDestinationPath githubDecompressedDestination)
               (\<lambda>u. await (getFileMap w npmRoot)
               (\<lambda>fileMapFromNPM. await (getFileMap w ghRoot)
               (\<lambda>fileMapFromGH.
                  compare_files w key version npmRoot ghRoot fileMapFromNPM))))))))"

text \<open>
  The outer \<open>catch\<close> (lines 88 to 99). \<open>e[0]\<close> of an empty array is \<open>undefined\<close>, whose
  \<open>message\<close> cannot be read.
\<close>

definition process_error :: "string \<Rightarrow> thrown \<Rightarrow> unit io" where
  \<open>process_error key e =
     (let generic =
            logger Err (process_message key)
              [Some (''Error message: '' @ template (message e))]
      in case e of
           Arr [] \<Rightarrow> throw (Obj (TypeError ''Cannot read property 'message' of undefined''))
         | Arr (e0 # es) \<Rightarrow>
             if \<not> falsy (message e0) \<and> js_includes (template (message e0)) ''404''
             then logger Err (tarball_message key) []
             else generic
         | Obj x \<Rightarrow> generic)\<close>

text \<open>
  The loop over \<open>Object.entries(lockfile.dependencies)\<close> (lines 32 to 100); the lockfile is
  the list of its entries, a package name with the \<open>version\<close> of its object. The registry
  document is fetched before the \<open>try\<close>. The value is \<open>dependenciesWithDifferences\<close>.
\<close>

fun verify_loop ::
  "world \<Rightarrow> module_state \<Rightarrow> (string \<times> string option) list \<Rightarrow> (string \<times> nat) list \<Rightarrow>
   (string \<times> nat) list io" where
  "verify_loop w s [] dependenciesWithDifferences = return dependenciesWithDifferences"
| "verify_loop w s ((key, version) # entries) dependenciesWithDifferences =
     await (getPackageInfoFromRegistry w s key)
       (\<lambda>packageInfo.
          await (try_catch (check_package w s key version packageInfo)
                   (\<lambda>e. await (process_error key e) (\<lambda>u. return None)))
            (\<lambda>pushed.
               verify_loop w s entries
                 (case pushed of
                    None \<Rightarrow> dependenciesWithDifferences
                  | Some d \<Rightarrow> dependenciesWithDifferences @ [d])))"

text \<open>
  \<open>verify(lockfilePath, logLevel, tempDirectory, registryUrl)\<close>: the state it leaves and
  its promise. A truthy \<open>registryUrl\<close> overwrites \<open>REGISTRY_BASE_URL\<close>; the closing log
  call names each package with differences and their number.
\<close>

definition summary :: "(string \<times> nat) list \<Rightarrow> string" where
  \<open>summary dependenciesWithDifferences =
     concat (map (\<lambda>(dep, count).
                    ''package "'' @ dep @ ''" had '' @ show_nat count @ '' differences'' @
                    [CHR 0x0A])
               dependenciesWithDifferences)\<close>

definition configure :: "string \<Rightarrow> string option \<Rightarrow> module_state \<Rightarrow> module_state" where
  "configure tempDirectory registryUrl s =
     (if falsy registryUrl then s else s\<lparr>REGISTRY_BASE_URL := template registryUrl\<rparr>)
     \<lparr>TEMP_DIR := tempDirectory\<rparr>"

definition verify ::
  "world \<Rightarrow> (string \<times> string option) list \<Rightarrow> string \<Rightarrow> string option \<Rightarrow> module_state \<Rightarrow>
   module_state \<times> unit io" where
  "verify w lockfile tempDirectory registryUrl s0 =
     (let s = configure tempDirectory registryUrl s0
      in (s, await (verify_loop w s lockfile [])
               (\<lambda>dependenciesWithDifferences.
                  if length dependenciesWithDifferences = 0
                  then logger Info ''Finished checking dependencies, no differences found.'' []
                  else logger Err
                         (''Finished checking dependencies, found differences on the following packages:''
                          @ [CHR 0x0A] @ '' '' @ summary dependenciesWithDifferences) [])))"

section \<open>Vocabulary of the statements\<close>

text \<open>
  A compared pair of files differs: the source-side path exists and the two digests are
  not the same.
\<close>

definition hashes_differ :: "world \<Rightarrow> string \<Rightarrow> string \<Rightarrow> string \<Rightarrow> bool" where
  "hashes_differ w npmRoot ghRoot mapKey =
     (fileExists w (ghRoot @ mapKey) \<and>
      snd (getHash w (npmRoot @ mapKey)) \<noteq> snd (getHash w (ghRoot @ mapKey)))"


text \<open>
  A request goes to the registry at \<open>base\<close>, or, for a download, to GitHub; a call on
  the logger goes nowhere.
\<close>

fun aimed_at :: "string \<Rightarrow> event \<Rightarrow> bool" where
  "aimed_at base (Rp uri) = prefix (base @ ''/'') uri"
| "aimed_at base (Request url) = prefix (base @ ''/'') url"
| "aimed_at base (RequestGet url dest) =
     (prefix (base @ ''/'') url \<or> prefix ''https://github.com/'' url)"
| "aimed_at base (Log l m a) = True"



section \<open>Example: \<open>left-pad\<close> 1.3.0\<close>

text \<open>
  The lockfile \<open>{"dependencies": {"left-pad": {"version": "1.3.0"}}}\<close>, the scratch
  directory \<open>/tmp\<close>, and a world in which every registry serves \<open>left-pad\<close>, GitHub has
  the tag \<open>v1.3.0\<close> only, and the scratch directory holds the given nodes.
\<close>

definition leftpad_lock :: "(string \<times> string option) list" where
  "leftpad_lock = [(''left-pad'', Some ''1.3.0'')]"

definition leftpad_info :: package_info where
  "leftpad_info =
     \<lparr>repository_url = Some ''git+https://github.com/stevemao/left-pad.git'',
      dist_tags = Some (Some ''1.3.0'')\<rparr>"

definition leftpad_world :: "(string \<times> node) list \<Rightarrow> world" where
  "leftpad_world nodes =
     \<lparr>rp_get = (\<lambda>uri. if suffix ''/left-pad'' uri then Inr leftpad_info
                      else Inl (Error ''404 - Not Found'')),
      request_call = (\<lambda>url. RequestStream),
      request_get = (\<lambda>url. if url = ''https://github.com/stevemao/left-pad/archive/v1.3.0.tar.gz''
                               \<or> suffix ''/left-pad/-/left-pad-1.3.0.tgz'' url
                            then Status 200 else Status 404),
      settled = (\<lambda>name. [0, 1]),
      url_pathname = (\<lambda>u. if u = ''git+https://github.com/stevemao/left-pad.git''
                            then Some ''/stevemao/left-pad.git'' else None),
      targz_decompress = (\<lambda>src dest. None),
      files = nodes\<rparr>"

definition npm_root :: string where
  "npm_root = ''/tmp/left-pad-1.3.0-npm/package''"

definition gh_root :: string where
  "gh_root = ''/tmp/left-pad-1.3.0-gh/left-pad-1.3.0''"

text \<open>The scratch directory with the two unpacked archives, given by their files.\<close>

definition unpacked :: "(string \<times> node) list \<Rightarrow> (string \<times> node) list \<Rightarrow> (string \<times> node) list" where
  "unpacked npm gh =
     (npm_root, Directory) # map (\<lambda>(p, n). (npm_root @ p, n)) npm @
     (gh_root, Directory) # map (\<lambda>(p, n). (gh_root @ p, n)) gh"

text \<open>
  The published package has a script and a benchmark the repository does not have; the
  script is the same on both sides.
\<close>

definition leftpad_same :: world where
  "leftpad_same =
     leftpad_world
       (unpacked [(''/index.js'', File ''aa''), (''/perf/perf.js'', File ''bb''),
                  (''/README.md'', File ''cc'')]
                 [(''/index.js'', File ''aa''), (''/test.js'', File ''dd'')])"




definition leftpad_unreadable :: world where
  "leftpad_unreadable =
     leftpad_world
       (unpacked [(''/a.js'', File ''a1''), (''/b.js'', File ''b1'')]
                 [(''/a.js'', Unreadable)])"


definition leftpad_no_repository :: world where
  "leftpad_no_repository =
     leftpad_same\<lparr>rp_get := (\<lambda>uri. Inr \<lparr>repository_url = None,
                                           dist_tags = Some (Some ''1.3.0'')\<rparr>)\<rparr>"

definition leftpad_undefined_tag :: world where
  "leftpad_undefined_tag =
     leftpad_same\<lparr>request_get :=
       (\<lambda>url. if url = ''https://github.com/stevemao/left-pad/archive/vundefined.tar.gz''
              then Status 200 else Status 404)\<rparr>"

definition two_packages_lock :: "(string \<times> string option) list" where
  "two_packages_lock = [(''private-pkg'', Some ''1.0.0''), (''left-pad'', Some ''1.3.0'')]"

section \<open>Sequencing and events\<close>

lemma await_return [simp]: "await (return a) f = f a"
  by (simp add: await_def return_def split: prod.splits)

lemma await_throw [simp]: "await (throw e) f = throw e"
  by (simp add: await_def throw_def)

lemma await_logger [simp]: "await (logger l m a) f = (Log l m a # fst (f ()), snd (f ()))"
  by (simp add: await_def logger_def split: prod.splits)

lemma snd_await:
  "snd (await m f) = (case snd m of Inl e \<Rightarrow> Inl e | Inr a \<Rightarrow> snd (f a))"
  by (simp add: await_def split: prod.splits sum.splits)

lemma fst_await:
  "fst (await m f) = (case snd m of Inl e \<Rightarrow> fst m | Inr a \<Rightarrow> fst m @ fst (f a))"
  by (simp add: await_def split: prod.splits sum.splits)

lemma await_Inl [simp]: "await (es, Inl e) f = (es, Inl e)"
  by (simp add: await_def)

lemma thrown_await:
  "snd (await m f) = Inl e \<Longrightarrow> snd m = Inl e \<or> (\<exists>a. snd m = Inr a \<and> snd (f a) = Inl e)"
  by (auto simp: snd_await split: sum.splits)

lemma await_assoc: "await (await m f) g = await m (\<lambda>a. await (f a) g)"
  by (simp add: await_def split: prod.splits sum.splits)

lemma fst_try_catch:
  "fst (try_catch m h) = (case snd m of Inl e \<Rightarrow> fst m @ fst (h e) | Inr a \<Rightarrow> fst m)"
  by (simp add: try_catch_def split: prod.splits sum.splits)

lemma snd_try_catch:
  "snd (try_catch m h) = (case snd m of Inl e \<Rightarrow> snd (h e) | Inr a \<Rightarrow> Inr a)"
  by (simp add: try_catch_def split: prod.splits sum.splits)

lemma events_await:
  "list_all P (fst m) \<Longrightarrow> (\<And>a. snd m = Inr a \<Longrightarrow> list_all P (fst (f a))) \<Longrightarrow>
   list_all P (fst (await m f))"
  by (simp add: fst_await split: sum.splits)

lemma events_try_catch:
  "list_all P (fst m) \<Longrightarrow> (\<And>e. snd m = Inl e \<Longrightarrow> list_all P (fst (h e))) \<Longrightarrow>
   list_all P (fst (try_catch m h))"
  by (simp add: fst_try_catch split: sum.splits)

lemma events_return [simp]: "fst (return a) = []"
  by (simp add: return_def)

lemma events_throw [simp]: "fst (throw e) = []"
  by (simp add: throw_def)

lemma events_logger [simp]: "fst (logger l m a) = [Log l m a]"
  by (simp add: logger_def)

lemma getHash_events [simp]: "fst (getHash w p) = []"
  by (simp add: getHash_def split: option.splits node.splits)

lemma decompress_events [simp]: "fst (decompress w a b) = []"
  by (simp add: decompress_def split: option.splits)

lemma findFiles_events [simp]: "fst (findFiles w r p) = []"
  by (simp add: findFiles_def split: option.splits node.splits)

lemma getFileMap_events [simp]: "fst (getFileMap w p) = []"
  by (simp add: getFileMap_def fst_await split: sum.splits)

section \<open>Where the requests go\<close>

lemma aimed_downloadFile:
  "prefix (base @ ''/'') url \<or> prefix ''https://github.com/'' url \<Longrightarrow>
   list_all (aimed_at base) (fst (downloadFile w s url f))"
  by (simp add: downloadFile_def Let_def split: http_outcome.splits)

lemma aimed_latest:
  "list_all (aimed_at (REGISTRY_BASE_URL s)) (fst (getPackageLatestVersion w s name))"
  by (simp add: getPackageLatestVersion_def Let_def)

lemma aimed_info:
  "list_all (aimed_at (REGISTRY_BASE_URL s)) (fst (getPackageInfoFromRegistry w s name))"
  by (simp add: getPackageInfoFromRegistry_def Let_def)

lemma aimed_npm:
  "list_all (aimed_at (REGISTRY_BASE_URL s))
     (fst (downloadCompressedFileFromNpm w s name version))"
  unfolding downloadCompressedFileFromNpm_def Let_def
  by (intro events_await aimed_downloadFile) (simp_all add: aimed_latest)

lemma aimed_promise_any:
  "list_all (\<lambda>p. list_all P (fst p)) ps \<Longrightarrow> list_all P (fst (promise_any order ps))"
  by (induction ps) (simp_all add: promise_any_def Let_def)

lemma github_repository_events [simp]: "fst (github_repository w info) = []"
  by (simp add: github_repository_def split: option.splits list.splits)

lemma aimed_github:
  "list_all (aimed_at base) (fst (downloadCompressedFileFromGitHub w s name version info))"
  unfolding downloadCompressedFileFromGitHub_def
  by (auto intro!: events_await aimed_promise_any aimed_downloadFile
        simp: tarURL_def alternativeURL_def)

lemma aimed_compare_loop:
  "list_all (aimed_at base) (fst (compare_loop w key version nr gr entries acc))"
  by (induction entries arbitrary: acc)
     (auto simp: fst_await Let_def split: sum.splits)

lemma aimed_compare_files:
  "list_all (aimed_at base) (fst (compare_files w key version nr gr fm))"
  unfolding compare_files_def
  by (intro events_try_catch events_await aimed_compare_loop) (simp_all add: fst_await)

lemma aimed_check_package:
  "list_all (aimed_at (REGISTRY_BASE_URL s)) (fst (check_package w s key version info))"
  unfolding check_package_def Let_def
  by (intro events_await aimed_github aimed_npm)
     (simp_all add: aimed_compare_files events_await)

lemma aimed_process_error:
  "list_all (aimed_at base) (fst (process_error key e))"
  by (simp add: process_error_def Let_def split: thrown.splits list.splits)

lemma aimed_verify_loop:
  "list_all (aimed_at (REGISTRY_BASE_URL s)) (fst (verify_loop w s lockfile acc))"
proof (induction lockfile arbitrary: acc)
  case Nil
  show ?case by simp
next
  case (Cons entry lockfile)
  obtain key version where "entry = (key, version)" by (cases entry)
  then show ?case
    by (auto intro!: events_await events_try_catch aimed_info aimed_check_package
          aimed_process_error Cons.IH)
qed


section \<open>The comparison loop\<close>

lemma await_if: "await (if c then a else b) g = (if c then await a g else await b g)"
  by (rule if_distrib)

lemma compare_loop_append:
  "compare_loop w key version nr gr (pre @ post) acc =
   await (compare_loop w key version nr gr pre acc)
     (\<lambda>acc'. compare_loop w key version nr gr post acc')"
proof (induction pre arbitrary: acc)
  case Nil
  show ?case by simp
next
  case (Cons e pre)
  obtain mapKey v where e: "e = (mapKey, v)" by (cases e)
  show ?case
    by (simp add: e Cons.IH await_assoc Let_def await_if del: await_logger cong del: if_weak_cong)
qed

lemma compare_loop_value:
  "snd (compare_loop w key version npmRoot ghRoot entries acc) = Inr d \<Longrightarrow>
   d = acc @ filter (hashes_differ w npmRoot ghRoot) (map fst entries)"
proof (induction entries arbitrary: acc)
  case Nil
  then show ?case by (simp add: return_def)
next
  case (Cons e entries)
  obtain mapKey v where e: "e = (mapKey, v)" by (cases e)
  from Cons.prems obtain h where h: "snd (getHash w (npmRoot @ mapKey)) = Inr h"
    by (auto simp: e snd_await split: sum.splits)
  show ?case
  proof (cases "fileExists w (ghRoot @ mapKey)")
    case False
    with Cons.prems h have "snd (compare_loop w key version npmRoot ghRoot entries acc) = Inr d"
      by (simp add: e snd_await)
    from Cons.IH [OF this] False show ?thesis
      by (simp add: e hashes_differ_def)
  next
    case True
    with Cons.prems h obtain g where g: "snd (getHash w (ghRoot @ mapKey)) = Inr g"
      by (auto simp: e snd_await split: sum.splits)
    show ?thesis
    proof (cases "h = g")
      case same: True
      with Cons.prems h g True
      have "snd (compare_loop w key version npmRoot ghRoot entries acc) = Inr d"
        by (simp add: e snd_await)
      from Cons.IH [OF this] True h g same show ?thesis
        by (simp add: e hashes_differ_def)
    next
      case diff: False
      with Cons.prems h g True
      have "snd (compare_loop w key version npmRoot ghRoot entries (acc @ [mapKey])) = Inr d"
        by (simp add: e snd_await)
      from Cons.IH [OF this] True h g diff show ?thesis
        by (simp add: e hashes_differ_def)
    qed
  qed
qed



lemma compare_files_done:
  assumes "snd (compare_loop w key version npmRoot ghRoot fileMap []) = Inr d"
  shows "compare_files w key version npmRoot ghRoot fileMap =
           (fst (compare_loop w key version npmRoot ghRoot fileMap []) @
              [if d = [] then Log Info (matched_message key) []
               else Log Err (found_message (length d) key) []],
            Inr (if d = [] then None else Some (key, length d)))"
  using assms
  by (cases "compare_loop w key version npmRoot ghRoot fileMap []")
     (simp add: compare_files_def try_catch_def await_def logger_def return_def)

lemma compare_files_events:
  "set (fst (compare_loop w key version npmRoot ghRoot fileMap [])) \<subseteq>
   set (fst (compare_files w key version npmRoot ghRoot fileMap))"
  by (cases "compare_loop w key version npmRoot ghRoot fileMap []")
     (auto simp: compare_files_def try_catch_def await_def logger_def return_def
        split: sum.splits)

section \<open>Status codes\<close>

lemma show_nat_digit: "n < 10 \<Longrightarrow> show_nat n = [digit n]"
  by (simp add: show_nat.simps)

lemma show_nat_step: "10 \<le> n \<Longrightarrow> show_nat n = show_nat (n div 10) @ [digit (n mod 10)]"
  by (subst show_nat.simps) simp

lemma hd_show_nat_hundreds:
  assumes "100 \<le> n" and "n < 1000"
  shows "hd (show_nat n) = digit (n div 100)"
proof -
  from assms have a: "10 \<le> n" and b: "10 \<le> n div 10" and c: "n div 100 < 10"
    by simp_all
  have eq: "n div 10 div 10 = n div 100"
    by (simp add: div_mult2_eq)
  have "show_nat n = show_nat (n div 10) @ [digit (n mod 10)]"
    by (rule show_nat_step [OF a])
  also have "show_nat (n div 10) = show_nat (n div 100) @ [digit (n div 10 mod 10)]"
    using show_nat_step [OF b] by (simp only: eq)
  also have "show_nat (n div 100) = [digit (n div 100)]"
    by (rule show_nat_digit [OF c])
  finally show ?thesis by simp
qed

lemma digit_2: "digit d = CHR ''2'' \<longleftrightarrow> d = 2" if "d < 10"
proof -
  from that consider "d = 0" | "d = 1" | "d = 2" | "d = 3" | "d = 4" | "d = 5"
    | "d = 6" | "d = 7" | "d = 8" | "d = 9"
    by atomize_elim arith
  then show ?thesis
    by cases (simp_all add: digit_def)
qed

lemma status_2xx:
  assumes "100 \<le> n" and "n < 1000"
  shows "hd (show_nat n) = CHR ''2'' \<longleftrightarrow> 200 \<le> n \<and> n < 300"
proof -
  from assms have "n div 100 < 10" by simp
  from digit_2 [OF this] have "hd (show_nat n) = CHR ''2'' \<longleftrightarrow> n div 100 = 2"
    by (simp add: hd_show_nat_hundreds [OF assms])
  also have "\<dots> \<longleftrightarrow> 200 \<le> n \<and> n < 300"
    by auto
  finally show ?thesis .
qed


section \<open>The race of the two downloads\<close>

lemma downloadFile_rejected:
  "request_get w url = Failed m \<Longrightarrow> snd (downloadFile w s url f) = Inl (Obj (Error m))"
  "request_get w url = Status n \<Longrightarrow> 100 \<le> n \<Longrightarrow> n < 1000 \<Longrightarrow> \<not> (200 \<le> n \<and> n < 300) \<Longrightarrow>
   snd (downloadFile w s url f) = Inl (Obj (Error (show_nat n)))"
  using status_2xx [of n] by (simp_all add: downloadFile_def Let_def)


lemma first_fulfilled_None:
  "first_fulfilled rs js = None \<Longrightarrow> i \<in> set js \<Longrightarrow> i < length rs \<Longrightarrow> \<exists>e. rs ! i = Inl e"
  by (induction js) (auto simp: at_index_def split: if_splits option.splits sum.splits)

lemma rejections_all: "\<forall>r \<in> set rs. \<exists>e. r = Inl e \<Longrightarrow> map Inl (rejections rs) = rs"
  by (induction rs) (auto simp: rejections_def)


lemma promise_any_rejected:
  assumes "snd (promise_any order ps) = Inl e"
  shows "e = Arr (rejections (map snd ps)) \<and> map Inl (rejections (map snd ps)) = map snd ps"
proof -
  from assms have none: "first_fulfilled (map snd ps) (order @ [0..<length (map snd ps)]) = None"
    and e: "e = Arr (rejections (map snd ps))"
    by (simp_all add: promise_any_def Let_def split: option.splits)
  have "\<exists>e. r = Inl e" if "r \<in> set (map snd ps)" for r
  proof -
    from that obtain i where "i < length (map snd ps)" and "map snd ps ! i = r"
      by (auto simp: in_set_conv_nth)
    with first_fulfilled_None [OF none, of i] show ?thesis by auto
  qed
  with e show ?thesis
    by (simp add: rejections_all)
qed


lemma promise_any_throws:
  assumes "snd (promise_any order ps) = Inl e" and "ps \<noteq> []"
  shows "e \<noteq> Arr []"
proof -
  from promise_any_rejected [OF assms(1)]
  have e: "e = Arr (rejections (map snd ps))"
    and "map Inl (rejections (map snd ps)) = map snd ps"
    by simp_all
  then have "length (rejections (map snd ps)) = length ps"
    by (metis length_map)
  with assms(2) e show ?thesis by auto
qed


section \<open>File maps\<close>









section \<open>What is thrown, and where it is caught\<close>

lemma downloadFile_throws: "snd (downloadFile w s url f) = Inl e \<Longrightarrow> \<exists>x. e = Obj x"
  by (auto simp: downloadFile_def Let_def split: http_outcome.splits if_splits)

lemma github_repository_throws:
  "snd (github_repository w info) = Inl e \<Longrightarrow> \<exists>x. e = Obj x"
  by (auto simp: github_repository_def throw_def return_def
        split: if_splits option.splits list.splits)

lemma github_throws:
  assumes "snd (downloadCompressedFileFromGitHub w s name version info) = Inl e"
  shows "e \<noteq> Arr []"
proof -
  from thrown_await [OF assms [unfolded downloadCompressedFileFromGitHub_def]]
  show ?thesis
  proof
    assume "snd (github_repository w info) = Inl e"
    from github_repository_throws [OF this] show ?thesis by auto
  next
    assume "\<exists>a. snd (github_repository w info) = Inr a \<and>
              snd (case a of (githubUser, githubRepoName) \<Rightarrow>
                     await (promise_any (settled w name)
                         [downloadFile w s (tarURL githubUser githubRepoName version)
                            (name @ ''-'' @ template version @ ''-gh.tgz''),
                          downloadFile w s (alternativeURL githubUser githubRepoName version)
                            (name @ ''-'' @ template version @ ''-gh.tar.gz'')])
                       (\<lambda>p. return \<lparr>path = p, repo = githubRepoName, user = githubUser\<rparr>)) = Inl e"
    then obtain u r where
      "snd (await (promise_any (settled w name)
                     [downloadFile w s (tarURL u r version)
                        (name @ ''-'' @ template version @ ''-gh.tgz''),
                      downloadFile w s (alternativeURL u r version)
                        (name @ ''-'' @ template version @ ''-gh.tar.gz'')])
              (\<lambda>p. return \<lparr>path = p, repo = r, user = u\<rparr>)) = Inl e"
      by auto
    from thrown_await [OF this]
    have "snd (promise_any (settled w name)
                     [downloadFile w s (tarURL u r version)
                        (name @ ''-'' @ template version @ ''-gh.tgz''),
                      downloadFile w s (alternativeURL u r version)
                        (name @ ''-'' @ template version @ ''-gh.tar.gz'')]) = Inl e"
      by (auto simp: return_def)
    from promise_any_throws [OF this] show ?thesis by simp
  qed
qed

lemma npm_throws:
  assumes "snd (downloadCompressedFileFromNpm w s name version) = Inl e"
  shows "\<exists>x. e = Obj x"
  using assms
  by (auto simp: downloadCompressedFileFromNpm_def getPackageLatestVersion_def Let_def
        return_def dest!: thrown_await downloadFile_throws
        split: if_splits awaited.splits option.splits)

lemma decompress_throws: "snd (decompress w a b) = Inl e \<Longrightarrow> \<exists>x. e = Obj x"
  by (auto simp: decompress_def throw_def return_def split: option.splits)

lemma getFileMap_throws: "snd (getFileMap w p) = Inl e \<Longrightarrow> \<exists>x. e = Obj x"
  by (auto simp: getFileMap_def findFiles_def throw_def return_def
        dest!: thrown_await split: option.splits node.splits)

lemma compare_files_fulfils: "\<exists>pushed. snd (compare_files w key version nr gr fm) = Inr pushed"
  by (cases "compare_loop w key version nr gr fm []")
     (auto simp: compare_files_def try_catch_def await_def logger_def return_def
        split: sum.splits)

lemma check_package_throws:
  assumes "snd (check_package w s key version info) = Inl e"
  shows "e \<noteq> Arr []"
proof -
  have never: "snd (compare_files w key version nr gr fm) \<noteq> Inl x" for nr gr fm x
    using compare_files_fulfils [of w key version nr gr fm] by auto
  from assms show ?thesis
    unfolding check_package_def Let_def
    by (auto simp: return_def logger_def never
          dest!: thrown_await github_throws npm_throws decompress_throws getFileMap_throws
          split: if_splits)
qed

lemma process_error_fulfils: "e \<noteq> Arr [] \<Longrightarrow> snd (process_error key e) = Inr ()"
  by (simp add: process_error_def Let_def logger_def split: thrown.splits list.splits)

lemma caught_inside_try:
  "\<exists>pushed. snd (try_catch (check_package w s key version info)
                    (\<lambda>e. await (process_error key e) (\<lambda>u. return None))) = Inr pushed"
proof (cases "snd (check_package w s key version info)")
  case (Inl e)
  from check_package_throws [OF this] have "snd (process_error key e) = Inr ()"
    by (rule process_error_fulfils)
  with Inl show ?thesis
    by (simp add: snd_try_catch snd_await return_def)
next
  case (Inr pushed)
  then show ?thesis
    by (simp add: snd_try_catch)
qed

lemma verify_loop_fulfils:
  assumes "\<forall>key \<in> set (map fst lockfile). \<exists>info. rp_get w (REGISTRY_BASE_URL s @ ''/'' @ key) = Inr info"
  shows "\<exists>differences. snd (verify_loop w s lockfile acc) = Inr differences"
  using assms
proof (induction lockfile arbitrary: acc)
  case Nil
  show ?case by (simp add: return_def)
next
  case (Cons entry lockfile)
  obtain key version where entry: "entry = (key, version)" by (cases entry)
  from Cons.prems entry obtain info where
    info: "rp_get w (REGISTRY_BASE_URL s @ ''/'' @ key) = Inr info"
    by auto
  from caught_inside_try [of w s key version info] obtain pushed where
    pushed: "snd (try_catch (check_package w s key version info)
                    (\<lambda>e. await (process_error key e) (\<lambda>u. return None))) = Inr pushed"
    by blast
  from Cons.prems have "\<forall>key \<in> set (map fst lockfile).
      \<exists>info. rp_get w (REGISTRY_BASE_URL s @ ''/'' @ key) = Inr info"
    by simp
  from Cons.IH [OF this] info pushed show ?case
    by (simp add: entry snd_await getPackageInfoFromRegistry_def Let_def)
qed

lemma registry_failure_rejects:
  assumes "rp_get w (REGISTRY_BASE_URL s @ ''/'' @ key) = Inl e"
  shows "verify_loop w s ((key, version) # entries) acc =
         ([Rp (REGISTRY_BASE_URL s @ ''/'' @ key)], Inl (Obj e))"
  using assms by (simp add: getPackageInfoFromRegistry_def await_def Let_def)

lemma latest_version_throws:
  assumes "request_call w (REGISTRY_BASE_URL s @ ''/'' @ name) = RequestStream"
    and "falsy version"
  shows \<open>downloadCompressedFileFromNpm w s name version =
           ([Request (REGISTRY_BASE_URL s @ ''/'' @ name)],
            Inl (Obj (TypeError ''Cannot read property 'latest' of undefined'')))\<close>
  using assms
  by (simp add: downloadCompressedFileFromNpm_def getPackageLatestVersion_def await_def Let_def)

section \<open>The claims\<close>

subsection \<open>C1: what a completed comparison reports\<close>




subsection \<open>C2: an error of one dependency\<close>

text \<open>
  C2 asks that any error met while one dependency is verified, the failure to fetch its
  registry document included, is caught for that dependency and that the run goes on
  with the next entry. In the module the registry document is fetched before the
  \<open>try\<close> (line 33): here the registry does not know the first package of the lockfile,
  \<open>verify\<close> rejects with that error, and \<open>left-pad\<close>, the second entry, is never looked at.
  Whatever is thrown inside the \<open>try\<close> is caught, as the lemmas \<open>caught_inside_try\<close> and
  \<open>verify_loop_fulfils\<close> above say.
\<close>

theorem registry_failure_aborts_the_run:
  "verify leftpad_same two_packages_lock ''/tmp'' None initial_state =
     (\<lparr>REGISTRY_BASE_URL = ''https://registry.npmjs.org'', TEMP_DIR = ''/tmp''\<rparr>,
      [Rp ''https://registry.npmjs.org/private-pkg''],
      Inl (Obj (Error ''404 - Not Found'')))"
  by code_simp

subsection \<open>C3: a registry document without a repository\<close>

text \<open>
  C3, as the code has it. When the registry document of a dependency has no repository
  URL, \<open>downloadCompressedFileFromGitHub\<close> throws before any download; the outer
  \<open>catch\<close> logs the dependency with \<open>logger.error\<close> by the message it has for every other
  error of processing; nothing is pushed on \<open>dependenciesWithDifferences\<close>, no
  \<open>All hashes matched\<close> is logged, and the loop goes on with the next entry.
\<close>

theorem no_repository_goes_through_catch:
  assumes "falsy (repository_url info)"
    and "rp_get w (REGISTRY_BASE_URL s @ ''/'' @ key) = Inr info"
  shows \<open>verify_loop w s ((key, version) # entries) acc =
           ([Rp (REGISTRY_BASE_URL s @ ''/'' @ key),
             Log Info (''Starting checks for package '' @ key) [],
             Log Err (process_message key)
               [Some ''Error message: package info doesn't contains repository info'']] @
            fst (verify_loop w s entries acc),
            snd (verify_loop w s entries acc))\<close>
proof -
  from assms(1) have "check_package w s key version info =
      ([Log Info (''Starting checks for package '' @ key) []],
       Inl (Obj (Error ''package info doesn't contains repository info'')))"
    by (simp add: check_package_def downloadCompressedFileFromGitHub_def
          github_repository_def throw_def)
  then have "try_catch (check_package w s key version info)
               (\<lambda>e. await (process_error key e) (\<lambda>u. return None)) =
             ([Log Info (''Starting checks for package '' @ key) [],
               Log Err (process_message key)
                 [Some ''Error message: package info doesn't contains repository info'']],
              Inr None)"
    by (simp add: try_catch_def process_error_def Let_def template_def return_def)
  with assms(2) show ?thesis
    by (simp add: getPackageInfoFromRegistry_def Let_def await_def split: prod.splits)
qed

theorem no_repository_goes_through_catch_witness:
  \<open>falsy (repository_url \<lparr>repository_url = None, dist_tags = Some (Some ''1.3.0'')\<rparr>) \<and>
   verify_loop leftpad_no_repository (configure ''/tmp'' None initial_state)
     [(''left-pad'', Some ''1.3.0'')] [] =
     ([Rp ''https://registry.npmjs.org/left-pad'',
       Log Info ''Starting checks for package left-pad'' [],
       Log Err (process_message ''left-pad'')
         [Some ''Error message: package info doesn't contains repository info'']],
      Inr [])\<close>
proof -
  have no_url: "falsy (repository_url \<lparr>repository_url = None, dist_tags = Some (Some ''1.3.0'')\<rparr>)"
    by (simp add: falsy_def)
  have answer: "rp_get leftpad_no_repository
                  (REGISTRY_BASE_URL (configure ''/tmp'' None initial_state) @ ''/'' @ ''left-pad'') =
                Inr \<lparr>repository_url = None, dist_tags = Some (Some ''1.3.0'')\<rparr>"
    by (simp add: leftpad_no_repository_def)
  have events: \<open>[Rp (REGISTRY_BASE_URL (configure ''/tmp'' None initial_state) @ ''/'' @ ''left-pad''),
             Log Info (''Starting checks for package '' @ ''left-pad'') [],
             Log Err (process_message ''left-pad'')
               [Some ''Error message: package info doesn't contains repository info'']] @
            fst (verify_loop leftpad_no_repository (configure ''/tmp'' None initial_state) [] []) =
            [Rp ''https://registry.npmjs.org/left-pad'',
             Log Info ''Starting checks for package left-pad'' [],
             Log Err (process_message ''left-pad'')
               [Some ''Error message: package info doesn't contains repository info'']]\<close>
    by (simp add: configure_def initial_state_def falsy_def)
  have rest: "snd (verify_loop leftpad_no_repository (configure ''/tmp'' None initial_state) [] []) =
              Inr []"
    by (simp add: return_def)
  from no_repository_goes_through_catch [OF no_url answer, of "Some ''1.3.0''" "[]" "[]"] no_url
  show ?thesis
    by (simp only: events rest)
qed

text \<open>The run over such a document: its one report for the package is an error.\<close>

theorem no_repository_is_logged_as_error:
  \<open>verify leftpad_no_repository leftpad_lock ''/tmp'' None initial_state =
     (\<lparr>REGISTRY_BASE_URL = ''https://registry.npmjs.org'', TEMP_DIR = ''/tmp''\<rparr>,
      [Rp ''https://registry.npmjs.org/left-pad'',
       Log Info ''Starting checks for package left-pad'' [],
       Log Err ''An error ocurred while trying to process left-pad package.''
         [Some ''Error message: package info doesn't contains repository info''],
       Log Info ''Finished checking dependencies, no differences found.'' []],
      Inr ())\<close>
  by code_simp

subsection \<open>C4: a file the repository does not have\<close>

text \<open>
  C4, as the code has it. A key of the registry-side file map whose source-side path does
  not exist is never among \<open>differentFiles\<close>; \<open>logger.warn\<close> is called for it as soon as
  the loop gets to it, that is when the loop completes on the keys before it and the
  registry-side file can be hashed; and when the loop completes and no other key has
  different digests, nothing is pushed and \<open>All hashes matched\<close> is logged.
\<close>

theorem missing_file_is_no_mismatch:
  assumes "\<not> fileExists w (ghRoot @ mapKey)"
  shows "(\<forall>d. snd (compare_loop w key version npmRoot ghRoot fileMap []) = Inr d \<longrightarrow>
              mapKey \<notin> set d) \<and>
         (\<forall>pre v post acc h.
            fileMap = pre @ (mapKey, v) # post \<and>
            snd (compare_loop w key version npmRoot ghRoot pre []) = Inr acc \<and>
            snd (getHash w (npmRoot @ mapKey)) = Inr h \<longrightarrow>
            Log Warn (missing_message mapKey key) [] \<in>
              set (fst (compare_files w key version npmRoot ghRoot fileMap))) \<and>
         (\<forall>d. snd (compare_loop w key version npmRoot ghRoot fileMap []) = Inr d \<and>
              (\<forall>k \<in> set (map fst fileMap).
                 k \<noteq> mapKey \<longrightarrow> \<not> hashes_differ w npmRoot ghRoot k) \<longrightarrow>
              snd (compare_files w key version npmRoot ghRoot fileMap) = Inr None \<and>
              last (fst (compare_files w key version npmRoot ghRoot fileMap)) =
                Log Info (matched_message key) [])"
proof (intro conjI allI impI)
  fix d
  assume "snd (compare_loop w key version npmRoot ghRoot fileMap []) = Inr d"
  from compare_loop_value [OF this] assms show "mapKey \<notin> set d"
    by (simp add: hashes_differ_def)
next
  fix pre v post acc h
  assume a: "fileMap = pre @ (mapKey, v) # post \<and>
             snd (compare_loop w key version npmRoot ghRoot pre []) = Inr acc \<and>
             snd (getHash w (npmRoot @ mapKey)) = Inr h"
  with assms have "Log Warn (missing_message mapKey key) [] \<in>
                     set (fst (compare_loop w key version npmRoot ghRoot fileMap []))"
    by (simp add: compare_loop_append fst_await)
  with compare_files_events show "Log Warn (missing_message mapKey key) [] \<in>
                     set (fst (compare_files w key version npmRoot ghRoot fileMap))"
    by blast
next
  fix d
  assume a: "snd (compare_loop w key version npmRoot ghRoot fileMap []) = Inr d \<and>
             (\<forall>k \<in> set (map fst fileMap). k \<noteq> mapKey \<longrightarrow> \<not> hashes_differ w npmRoot ghRoot k)"
  then have loop: "snd (compare_loop w key version npmRoot ghRoot fileMap []) = Inr d"
    by simp
  from a assms have "\<forall>k \<in> set (map fst fileMap). \<not> hashes_differ w npmRoot ghRoot k"
    by (auto simp: hashes_differ_def)
  with compare_loop_value [OF loop] have "d = []"
    by (simp add: filter_empty_conv)
  then show "snd (compare_files w key version npmRoot ghRoot fileMap) = Inr None"
    and "last (fst (compare_files w key version npmRoot ghRoot fileMap)) =
                Log Info (matched_message key) []"
    by (simp_all add: compare_files_done [OF loop])
qed

theorem missing_file_is_no_mismatch_witness:
  "\<not> fileExists leftpad_same (gh_root @ ''/perf/perf.js'') \<and>
   Log Warn (missing_message ''/perf/perf.js'' ''left-pad'') [] \<in>
     set (fst (compare_files leftpad_same ''left-pad'' (Some ''1.3.0'') npm_root gh_root
                 [(''/index.js'', True), (''/perf/perf.js'', True)])) \<and>
   snd (compare_files leftpad_same ''left-pad'' (Some ''1.3.0'') npm_root gh_root
          [(''/index.js'', True), (''/perf/perf.js'', True)]) = Inr None"
proof -
  have miss: "\<not> fileExists leftpad_same (gh_root @ ''/perf/perf.js'')"
    by code_simp
  have pre: "snd (compare_loop leftpad_same ''left-pad'' (Some ''1.3.0'') npm_root gh_root
               [(''/index.js'', True)] []) = Inr []"
    by code_simp
  have loop: "snd (compare_loop leftpad_same ''left-pad'' (Some ''1.3.0'') npm_root gh_root
               [(''/index.js'', True), (''/perf/perf.js'', True)] []) = Inr []"
    by code_simp
  have h: "snd (getHash leftpad_same (npm_root @ ''/perf/perf.js'')) = Inr ''bb''"
    by code_simp
  have same: "\<not> hashes_differ leftpad_same npm_root gh_root ''/index.js''"
    by code_simp
  have split: "[(''/index.js'', True), (''/perf/perf.js'', True)] =
               [(''/index.js'', True)] @ (''/perf/perf.js'', True) # []"
    by simp
  have others: "\<forall>k \<in> set (map fst [(''/index.js'', True), (''/perf/perf.js'', True)]).
                  k \<noteq> ''/perf/perf.js'' \<longrightarrow> \<not> hashes_differ leftpad_same npm_root gh_root k"
    using same by simp
  from missing_file_is_no_mismatch [OF miss, of "''left-pad''" "Some ''1.3.0''" npm_root
      "[(''/index.js'', True), (''/perf/perf.js'', True)]"]
    miss pre loop h split others
  show ?thesis by blast
qed

text \<open>
  The loop hashes before it probes, and one \<open>try\<close> holds the whole loop: when a file
  before the missing one cannot be hashed, the loop ends there and the missing file is
  not logged.
\<close>

theorem missing_file_not_reached:
  "\<not> fileExists leftpad_unreadable (gh_root @ ''/b.js'') \<and>
   snd (getFileMap leftpad_unreadable npm_root) = Inr [(''/a.js'', True), (''/b.js'', True)] \<and>
   compare_files leftpad_unreadable ''left-pad'' (Some ''1.3.0'') npm_root gh_root
     [(''/a.js'', True), (''/b.js'', True)] =
   ([Log Err ''An error ocurred while verifying the left-pad package''
       [Some (''EACCES: permission denied, open '' @ [CHR 0x27] @
              ''/tmp/left-pad-1.3.0-gh/left-pad-1.3.0/a.js'' @ [CHR 0x27])]], Inr None)"
  by code_simp

subsection \<open>C5: the two candidate archives\<close>



subsection \<open>C6: the keys of a file map\<close>



subsection \<open>C7: the order of the different files\<close>




subsection \<open>C8: a second run\<close>



subsection \<open>C9: an entry without a version\<close>

text \<open>
  C9 says that for an entry without a version the registry side takes the version from
  \<open>dist-tags.latest\<close> while the GitHub side is built from \<open>undefined\<close>. The GitHub side
  is: the candidates are the tags \<open>vundefined\<close> and \<open>undefined\<close>. The registry side is
  not: \<open>getPackageLatestVersion\<close> awaits the stream \<open>request(...)\<close> returns, reads
  \<open>dist-tags\<close> off the stream and throws before a tarball URL is built. Here GitHub even
  has the tag \<open>vundefined\<close>, so that the registry side is reached.
\<close>

theorem missing_version_never_resolved:
  \<open>downloadCompressedFileFromNpm leftpad_undefined_tag (configure ''/tmp'' None initial_state)
     ''left-pad'' None =
     ([Request ''https://registry.npmjs.org/left-pad''],
      Inl (Obj (TypeError ''Cannot read property 'latest' of undefined''))) \<and>
   tarURL ''stevemao'' ''left-pad'' None =
     ''https://github.com/stevemao/left-pad/archive/vundefined.tar.gz'' \<and>
   alternativeURL ''stevemao'' ''left-pad'' None =
     ''https://github.com/stevemao/left-pad/archive/undefined.tar.gz'' \<and>
   verify leftpad_undefined_tag [(''left-pad'', None)] ''/tmp'' None initial_state =
     (\<lparr>REGISTRY_BASE_URL = ''https://registry.npmjs.org'', TEMP_DIR = ''/tmp''\<rparr>,
      [Rp ''https://registry.npmjs.org/left-pad'',
       Log Info ''Starting checks for package left-pad'' [],
       Log Debug ''downloading file https://github.com/stevemao/left-pad/archive/vundefined.tar.gz'' [],
       RequestGet ''https://github.com/stevemao/left-pad/archive/vundefined.tar.gz''
         ''/tmp/left-pad-undefined-gh.tgz'',
       Log Debug ''finished downloading file https://github.com/stevemao/left-pad/archive/vundefined.tar.gz'' [],
       Log Debug ''downloading file https://github.com/stevemao/left-pad/archive/undefined.tar.gz'' [],
       RequestGet ''https://github.com/stevemao/left-pad/archive/undefined.tar.gz''
         ''/tmp/left-pad-undefined-gh.tar.gz'',
       Request ''https://registry.npmjs.org/left-pad'',
       Log Err ''An error ocurred while trying to process left-pad package.''
         [Some ''Error message: Cannot read property 'latest' of undefined''],
       Log Info ''Finished checking dependencies, no differences found.'' []],
      Inr ())\<close>
  by code_simp

subsection \<open>C10: the registry URL outlives the call\<close>

text \<open>
  C10. \<open>REGISTRY_BASE_URL\<close> is state of the module. After a call of \<open>verify\<close> with a
  registry URL \<open>u\<close>, a later call without one still has \<open>u\<close> as its registry: it runs
  exactly as a call that passes \<open>u\<close>, and every request for a registry document and
  every download that does not go to GitHub goes to \<open>u\<close>.
\<close>

theorem registry_url_persists:
  assumes "\<not> falsy (Some u)" and "s1 = fst (verify w1 lockfile1 temp1 (Some u) s0)"
  shows "REGISTRY_BASE_URL (fst (verify w lockfile temp None s1)) = u \<and>
         verify w lockfile temp None s1 = verify w lockfile temp (Some u) s1 \<and>
         list_all (aimed_at u) (fst (snd (verify w lockfile temp None s1)))"
proof -
  from assms have base: "REGISTRY_BASE_URL (configure temp None s1) = u"
    by (simp add: verify_def Let_def configure_def template_def falsy_def)
  from assms have same: "configure temp None s1 = configure temp (Some u) s1"
    by (simp add: verify_def Let_def configure_def template_def falsy_def)
  have "list_all (aimed_at (REGISTRY_BASE_URL (configure temp None s1)))
          (fst (snd (verify w lockfile temp None s1)))"
    unfolding verify_def Let_def snd_conv
    by (intro events_await aimed_verify_loop) simp
  with base same show ?thesis
    by (simp add: verify_def Let_def)
qed

theorem registry_url_persists_witness:
  "\<not> falsy (Some ''http://localhost:4873'') \<and>
   REGISTRY_BASE_URL
     (fst (verify leftpad_same leftpad_lock ''/tmp'' None
             (fst (verify leftpad_same [] ''/tmp'' (Some ''http://localhost:4873'')
                     initial_state)))) = ''http://localhost:4873'' \<and>
   list_all (aimed_at ''http://localhost:4873'')
     (fst (snd (verify leftpad_same leftpad_lock ''/tmp'' None
                  (fst (verify leftpad_same [] ''/tmp'' (Some ''http://localhost:4873'')
                          initial_state))))) \<and>
   hd (fst (snd (verify leftpad_same leftpad_lock ''/tmp'' None
                  (fst (verify leftpad_same [] ''/tmp'' (Some ''http://localhost:4873'')
                          initial_state))))) = Rp ''http://localhost:4873/left-pad''"
proof -
  have truthy: "\<not> falsy (Some ''http://localhost:4873'')"
    by (simp add: falsy_def)
  have first: "hd (fst (snd (verify leftpad_same leftpad_lock ''/tmp'' None
                  (fst (verify leftpad_same [] ''/tmp'' (Some ''http://localhost:4873'')
                          initial_state))))) = Rp ''http://localhost:4873/left-pad''"
    by code_simp
  from registry_url_persists [OF truthy refl, of leftpad_same leftpad_lock "''/tmp''"
       leftpad_same "[]" "''/tmp''" initial_state] truthy first
  show ?thesis by blast
qed

end
